theory Spec2Isabelle
  imports Main
begin

section \<open>The pipeline stack of the InsuranceLake ETL repository\<close>

text \<open>
  This theory embeds \<^verbatim>\<open>lib/stacks/pipeline_stack.py\<close>: the class \<^verbatim>\<open>PipelineStack\<close> with its
  constructor and the three methods \<^verbatim>\<open>create_environment_pipeline\<close>,
  \<^verbatim>\<open>get_codepipeline_source\<close> and \<^verbatim>\<open>get_artifact_bucket\<close>.

  The stack object is a record. Every construct the code creates in the scope of the stack
  (\<^verbatim>\<open>s3.Bucket(self, ...)\<close>, \<^verbatim>\<open>logs.LogGroup(self, ...)\<close>, ...) is appended to the stack's list of
  children, in the order in which Python creates them. A construct that is handed to another
  one and mutated later through it (the artifact bucket, reached again as
  \<^verbatim>\<open>pipeline.pipeline.artifact_bucket\<close>) is referred to by its construct id, and the mutation
  updates the child with that id. A Python exception is a value: the result of the
  constructor is either the finished stack or the exception together with the children that
  had been created when it was raised.

  What the code calls but does not define is a parameter of the model (record
  \<open>externals\<close> below): the constants and functions of \<^verbatim>\<open>lib/configuration.py\<close>, the class
  \<^verbatim>\<open>PipelineDeployStage\<close>, and the one computation of the CDK library whose result the code
  inspects, \<^verbatim>\<open>build_pipeline()\<close> with the stages it leaves in the pipeline. The constructors
  of the CDK library are taken as total record constructors: what the library validates or
  generates on its own (construct-id uniqueness, name syntax, support stacks, the
  self-mutation project) is outside the model.
\<close>

subsection \<open>Python values and exceptions\<close>

text \<open>A configuration value: a string, a boolean or \<^verbatim>\<open>None\<close>.\<close>

datatype py_value = PyNone | PyBool bool | PyStr string

text \<open>Python's truth value, as tested by \<^verbatim>\<open>if value:\<close>.\<close>

fun truthy :: "py_value \<Rightarrow> bool" where
  "truthy PyNone = False"
| "truthy (PyBool b) = b"
| "truthy (PyStr s) = (s \<noteq> [])"

text \<open>What an f-string puts for \<^verbatim>\<open>{value}\<close>.\<close>

fun py_str :: "py_value \<Rightarrow> string" where
  "py_str PyNone = ''None''"
| "py_str (PyBool b) = (if b then ''True'' else ''False'')"
| "py_str (PyStr s) = s"

datatype error =
    KeyError string
  | AttributeError string
  | ConfigurationError string
  | LibraryError string

text \<open>
  \<^verbatim>\<open>str.lower()\<close> on the ASCII letters; a character is a byte here, and every character
  that is not one of \<open>A\<close>..\<open>Z\<close> is left as it is.
\<close>

definition lower_char :: "char \<Rightarrow> char" where
  "lower_char c =
     (case map_of (zip ''ABCDEFGHIJKLMNOPQRSTUVWXYZ'' ''abcdefghijklmnopqrstuvwxyz'') c of
        Some d \<Rightarrow> d
      | None \<Rightarrow> c)"

definition lower :: "string \<Rightarrow> string" where
  "lower s = map lower_char s"

type_synonym mappings = "string \<rightharpoonup> (string \<rightharpoonup> py_value)"

subsection \<open>The CDK values the stack uses\<close>

datatype RemovalPolicy = DESTROY | RETAIN | SNAPSHOT | RETAIN_ON_UPDATE_OR_DELETE

datatype RetentionDays =
  ONE_DAY | ONE_WEEK | ONE_MONTH | THREE_MONTHS | SIX_MONTHS | ONE_YEAR | INFINITE

datatype BucketAccessControl =
  PRIVATE | PUBLIC_READ | PUBLIC_READ_WRITE | AUTHENTICATED_READ | LOG_DELIVERY_WRITE

datatype BlockPublicAccess = BLOCK_ALL | BLOCK_ACLS

datatype BucketEncryption = UNENCRYPTED | KMS_MANAGED | S3_MANAGED | KMS

datatype ObjectOwnership = BUCKET_OWNER_ENFORCED | BUCKET_OWNER_PREFERRED | OBJECT_WRITER

datatype PipelineType = V1 | V2

datatype ExecutionMode = QUEUED | SUPERSEDED | PARALLEL

datatype LinuxBuildImage = STANDARD_5_0 | STANDARD_6_0 | STANDARD_7_0

datatype Effect = ALLOW | DENY

datatype ActionCategory = SOURCE | BUILD | TEST | DEPLOY | APPROVAL | INVOKE | COMPUTE

datatype SourceProvider = CodeStarSourceConnection | GitHub | CodeCommit | S3 | ECR

datatype Aspect = AwsSolutionsChecks

record Environment =
  env_account :: string
  env_region :: string

record PolicyStatement =
  sid :: "string option"
  effect :: Effect
  actions_allowed :: "string list"
  resources :: "string list"
  conditions :: "(string \<times> (string \<times> string) list) list"

record BuildEnvironment =
  build_image :: LinuxBuildImage
  privileged :: bool

record CodeBuildOptions =
  build_environment :: BuildEnvironment
  role_policy :: "PolicyStatement list"

text \<open>
  An S3 bucket. The last three fields are those of its CloudFormation resource and of the
  resource of its encryption key, which the stack sets through escape hatches; \<open>None\<close> and
  \<open>[]\<close> mean that the stack has not set them.
\<close>

record Bucket =
  bucket_id :: string
  bucket_name :: string
  access_control :: BucketAccessControl
  block_public_access :: BlockPublicAccess
  enforce_ssl :: bool
  bucket_key_enabled :: bool
  encryption :: BucketEncryption
  public_read_access :: bool
  bucket_removal_policy :: RemovalPolicy
  versioned :: bool
  object_ownership :: ObjectOwnership
  logging_configuration :: "string option"
  enable_key_rotation :: "bool option"
  property_overrides :: "(string \<times> string) list"

record NagSuppression =
  suppression_id :: string
  suppression_reason :: string

record PipelineProject =
  project_name :: string

record ActionProperties =
  action_name :: string
  category :: ActionCategory
  resource :: "PipelineProject option"

record IAction =
  action_properties :: ActionProperties

record IStage =
  stage_name :: string
  actions :: "IAction list"

text \<open>
  \<^verbatim>\<open>codepipeline.Pipeline\<close>. Its artifact bucket is the construct with the id
  \<open>artifact_bucket\<close>; \<open>stages\<close> is empty until \<^verbatim>\<open>build_pipeline()\<close> has run.
\<close>

record Pipeline =
  pipeline_id :: string
  pipeline_name :: string
  cross_account_keys :: bool
  pipeline_type :: PipelineType
  execution_mode :: ExecutionMode
  artifact_bucket :: string
  stages :: "IStage list"
  pipeline_suppressions :: "NagSuppression list"

record CodePipelineSource =
  provider :: SourceProvider
  source_action_name :: string
  repo_string :: string
  branch :: string
  connection_arn :: string

text \<open>\<^verbatim>\<open>pipelines.CodePipelineSource.connection(...)\<close>.\<close>

definition connection :: "string \<Rightarrow> string \<Rightarrow> string \<Rightarrow> string \<Rightarrow> CodePipelineSource" where
  "connection an rs br arn =
     \<lparr>provider = CodeStarSourceConnection, source_action_name = an, repo_string = rs,
      branch = br, connection_arn = arn\<rparr>"

record ShellStep =
  step_id :: string
  input :: "CodePipelineSource option"
  commands :: "string list"

text \<open>
  \<^verbatim>\<open>pipelines.CodePipeline\<close>. \<open>code_pipeline\<close> is the id of the \<^verbatim>\<open>codepipeline.Pipeline\<close> it
  was given, \<open>added_stages\<close> the ids of the stages given to \<^verbatim>\<open>add_stage\<close>.
\<close>

record CodePipeline =
  codepipeline_id :: string
  code_build_defaults :: CodeBuildOptions
  self_mutation :: bool
  synth :: ShellStep
  code_pipeline :: string
  added_stages :: "string list"
  codepipeline_suppressions :: "NagSuppression list"

record PipelineDeployStage =
  deploy_stage_id :: string
  stage_target_environment :: string
  stage_env :: Environment
  aspects :: "Aspect list"

record LogGroup =
  log_group_id :: string
  log_group_name :: string
  log_group_removal_policy :: RemovalPolicy
  retention :: RetentionDays

datatype Construct =
    BucketC Bucket
  | PipelineC Pipeline
  | CodePipelineC CodePipeline
  | StageC PipelineDeployStage
  | LogGroupC LogGroup

subsection \<open>What the stack imports\<close>

text \<open>
  The names imported from \<^verbatim>\<open>lib/configuration.py\<close> and
  \<^verbatim>\<open>lib/stages/pipeline_deploy_stage.py\<close>, and \<^verbatim>\<open>build_pipeline\<close> of the CDK library. The three
  configuration functions take no argument, so each is the result of its call: a value or
  the exception it raises. \<open>PipelineDeployStage_init\<close> is the exception the constructor of
  the deploy stage raises for a target environment and a CDK environment, if any.
  \<open>build_pipeline\<close> gives the stages the built pipeline has, or the exception the library
  raises. \<open>CFG_PROD\<close> and \<open>CFG_TEST\<close> are the constants \<^verbatim>\<open>PROD\<close> and \<^verbatim>\<open>TEST\<close>, names that HOL
  has in use.
\<close>

record externals =
  CFG_PROD :: string
  CFG_TEST :: string
  DEPLOYMENT :: string
  GITHUB_REPOSITORY_NAME :: string
  GITHUB_REPOSITORY_OWNER_NAME :: string
  get_all_configurations :: "error + mappings"
  get_logical_id_prefix :: "error + string"
  get_resource_name_prefix :: "error + string"
  PipelineDeployStage_init :: "string \<Rightarrow> Environment \<Rightarrow> error option"
  build_pipeline :: "CodePipeline \<Rightarrow> error + IStage list"

subsection \<open>The stack\<close>

record PipelineStack =
  construct_id :: string
  account :: string
  region :: string
  mappings :: mappings
  logical_id_prefix :: string
  resource_name_prefix :: string
  target_branch :: string
  target_environment :: string
  removal_policy :: RemovalPolicy
  log_retention :: RetentionDays
  children :: "Construct list"

text \<open>
  The result of composing a stack: the stack, or the exception raised and the children
  the stack had when it was raised.
\<close>

datatype result = Returned PipelineStack | Raised error "Construct list"

fun declarations :: "result \<Rightarrow> Construct list" where
  "declarations (Returned self) = children self"
| "declarations (Raised e cs) = cs"

definition add_child :: "Construct \<Rightarrow> PipelineStack \<Rightarrow> PipelineStack" where
  "add_child c self = self\<lparr>children := children self @ [c]\<rparr>"

text \<open>Mutating the bucket, the pipeline or the CDK pipeline that has a given construct id.\<close>

fun update_bucket :: "string \<Rightarrow> (Bucket \<Rightarrow> Bucket) \<Rightarrow> Construct \<Rightarrow> Construct" where
  "update_bucket i f (BucketC b) = (if bucket_id b = i then BucketC (f b) else BucketC b)"
| "update_bucket i f c = c"

fun update_pipeline :: "string \<Rightarrow> (Pipeline \<Rightarrow> Pipeline) \<Rightarrow> Construct \<Rightarrow> Construct" where
  "update_pipeline i f (PipelineC p) =
     (if pipeline_id p = i then PipelineC (f p) else PipelineC p)"
| "update_pipeline i f c = c"

fun update_codepipeline ::
  "string \<Rightarrow> (CodePipeline \<Rightarrow> CodePipeline) \<Rightarrow> Construct \<Rightarrow> Construct" where
  "update_codepipeline i f (CodePipelineC p) =
     (if codepipeline_id p = i then CodePipelineC (f p) else CodePipelineC p)"
| "update_codepipeline i f c = c"

definition map_children :: "(Construct \<Rightarrow> Construct) \<Rightarrow> PipelineStack \<Rightarrow> PipelineStack" where
  "map_children g self = self\<lparr>children := map g (children self)\<rparr>"

subsubsection \<open>\<^verbatim>\<open>get_artifact_bucket\<close>\<close>

text \<open>The bucket is created in the scope of the stack: it is returned and becomes a child.\<close>

definition get_artifact_bucket :: "PipelineStack \<Rightarrow> Bucket \<times> PipelineStack" where
  "get_artifact_bucket self =
     (let b = \<lparr>bucket_id =
                 target_environment self @ logical_id_prefix self @ ''EtlPipeline-Artifact'',
               bucket_name =
                 lower (target_environment self) @ ''-'' @ resource_name_prefix self
                   @ ''-etl-pipeline-artifact'',
               access_control = PRIVATE,
               block_public_access = BLOCK_ALL,
               enforce_ssl = True,
               bucket_key_enabled = True,
               encryption = KMS,
               public_read_access = False,
               bucket_removal_policy = removal_policy self,
               versioned = True,
               object_ownership = OBJECT_WRITER,
               logging_configuration = None,
               enable_key_rotation = None,
               property_overrides = []\<rparr>
      in (b, add_child (BucketC b) self))"

subsubsection \<open>\<^verbatim>\<open>get_codepipeline_source\<close>\<close>

text \<open>
  \<^verbatim>\<open>self.mappings[DEPLOYMENT][key]\<close> raises \<^verbatim>\<open>KeyError\<close> when either key is missing. With a
  falsy repository name the method falls off its end and returns \<^verbatim>\<open>None\<close>.
\<close>

definition subscript :: "mappings \<Rightarrow> string \<Rightarrow> string \<Rightarrow> error + py_value" where
  "subscript m section key =
     (case m section of
        None \<Rightarrow> Inl (KeyError section)
      | Some d \<Rightarrow> (case d key of None \<Rightarrow> Inl (KeyError key) | Some v \<Rightarrow> Inr v))"

definition get_codepipeline_source ::
  "externals \<Rightarrow> PipelineStack \<Rightarrow> error + CodePipelineSource option" where
  "get_codepipeline_source ext self =
     (case subscript (mappings self) (DEPLOYMENT ext) (GITHUB_REPOSITORY_NAME ext) of
        Inl e \<Rightarrow> Inl e
      | Inr name \<Rightarrow>
          if truthy name then
            (case subscript (mappings self) (DEPLOYMENT ext) (GITHUB_REPOSITORY_OWNER_NAME ext) of
               Inl e \<Rightarrow> Inl e
             | Inr owner \<Rightarrow>
                 Inr (Some (connection ''Source''
                   (py_str owner @ ''/'' @ py_str name)
                   (target_branch self)
                   ''arn:aws:codestar-connections:us-east-1:787127824249:connection/ac69c4b3-c806-4b73-9bb8-df7c3a9b6162'')))
          else Inr None)"

subsubsection \<open>The log groups of the build actions\<close>

text \<open>
  The two nested loops over \<^verbatim>\<open>pipeline.pipeline.stages\<close> and \<^verbatim>\<open>stage.actions\<close>. For an action
  of category \<^verbatim>\<open>BUILD\<close> the arguments of \<^verbatim>\<open>logs.LogGroup\<close> are evaluated first;
  \<^verbatim>\<open>resource.project_name\<close> raises \<^verbatim>\<open>AttributeError\<close> when the action has no resource, and the
  loops stop there with the log groups created so far.
\<close>

definition action_log_group :: "PipelineStack \<Rightarrow> IAction \<Rightarrow> PipelineProject \<Rightarrow> LogGroup" where
  "action_log_group self action project =
     \<lparr>log_group_id = ''CodeBuildAction'' @ action_name (action_properties action) @ ''LogGroup'',
      log_group_name = ''/aws/codebuild/'' @ project_name project,
      log_group_removal_policy = removal_policy self,
      retention = log_retention self\<rparr>"

fun actions_loop :: "IAction list \<Rightarrow> PipelineStack \<Rightarrow> error option \<times> PipelineStack" where
  "actions_loop [] self = (None, self)"
| "actions_loop (action # rest) self =
     (if category (action_properties action) = BUILD then
        (case resource (action_properties action) of
           None \<Rightarrow> (Some (AttributeError ''project_name''), self)
         | Some project \<Rightarrow>
             actions_loop rest (add_child (LogGroupC (action_log_group self action project)) self))
      else actions_loop rest self)"

fun stages_loop :: "IStage list \<Rightarrow> PipelineStack \<Rightarrow> error option \<times> PipelineStack" where
  "stages_loop [] self = (None, self)"
| "stages_loop (stage # rest) self =
     (case actions_loop (actions stage) self of
        (Some e, self') \<Rightarrow> (Some e, self')
      | (None, self') \<Rightarrow> stages_loop rest self')"

subsubsection \<open>\<^verbatim>\<open>create_environment_pipeline\<close>\<close>

definition code_build_opt :: "PipelineStack \<Rightarrow> CodeBuildOptions" where
  "code_build_opt self =
     \<lparr>build_environment = \<lparr>build_image = STANDARD_7_0, privileged = False\<rparr>,
      role_policy =
        [\<lparr>sid = Some ''EtlPipelineSecretsManagerPolicy'',
          effect = ALLOW,
          actions_allowed = [''secretsmanager:GetSecretValue''],
          resources =
            [''arn:aws:secretsmanager:'' @ region self @ '':'' @ account self
               @ '':secret:/InsuranceLake/*''],
          conditions = []\<rparr>,
         \<lparr>sid = None,
          effect = ALLOW,
          actions_allowed = [''sts:AssumeRole''],
          resources = [''*''],
          conditions =
            [(''StringEquals'', [(''iam:ResourceTag/aws-cdk:bootstrap-role'', ''lookup'')])]\<rparr>]\<rparr>"

definition synth_commands :: "string list" where
  "synth_commands =
     [''npm install -g aws-cdk'',
      ''python -m pip install -r requirements.txt --root-user-action=ignore'',
      ''cdk synth'']"

definition nag_suppression :: NagSuppression where
  "nag_suppression =
     \<lparr>suppression_id = ''AwsSolutions-IAM5'',
      suppression_reason = ''Wildcard IAM permissions are used by auto-created Codepipeline policies and custom policies to allow flexible creation of resources''\<rparr>"

text \<open>
  Lines 186 to 214 of the source, after the loops: the removal policy, the access logs, the
  key rotation and the versioning of \<^verbatim>\<open>pipeline.pipeline.artifact_bucket\<close> (the bucket has
  an encryption key, its encryption being \<^verbatim>\<open>KMS\<close>), then the two suppressions.
\<close>

definition harden_artifact_bucket :: "RemovalPolicy \<Rightarrow> Bucket \<Rightarrow> Bucket" where
  "harden_artifact_bucket policy b =
     b\<lparr>bucket_removal_policy := policy,
       logging_configuration := Some ''access-logs'',
       enable_key_rotation := Some True,
       property_overrides :=
         property_overrides b @ [(''VersioningConfiguration.Status'', ''Enabled'')]\<rparr>"

definition finish_pipeline :: "Pipeline \<Rightarrow> CodePipeline \<Rightarrow> PipelineStack \<Rightarrow> PipelineStack" where
  "finish_pipeline code_pipeline' pipeline self =
     map_children
       (update_pipeline (pipeline_id code_pipeline')
          (\<lambda>p. p\<lparr>pipeline_suppressions := pipeline_suppressions p @ [nag_suppression]\<rparr>))
       (map_children
          (update_codepipeline (codepipeline_id pipeline)
             (\<lambda>p. p\<lparr>codepipeline_suppressions :=
                       codepipeline_suppressions p @ [nag_suppression]\<rparr>))
          (map_children
             (update_bucket (artifact_bucket code_pipeline')
                (harden_artifact_bucket (removal_policy self)))
             self))"

text \<open>
  Lines 151 to 184: the deploy stage, \<^verbatim>\<open>add_stage\<close>, \<^verbatim>\<open>build_pipeline\<close> and the loops.
  \<^verbatim>\<open>target_aws_env['account']\<close> and \<^verbatim>\<open>target_aws_env['region']\<close> raise \<^verbatim>\<open>KeyError\<close> on a
  missing key, before the stage is constructed. A stage whose constructor raises is not
  counted among the children; the check \<^verbatim>\<open>AwsSolutionsChecks\<close> is added to the stage right
  after its construction, with nothing in between that can raise, so the stage is recorded
  with it.
\<close>

definition deploy_and_build ::
  "externals \<Rightarrow> Pipeline \<Rightarrow> CodePipeline \<Rightarrow> string \<Rightarrow> (string \<rightharpoonup> string) \<Rightarrow> PipelineStack
     \<Rightarrow> result" where
  "deploy_and_build ext code_pipeline' pipeline target_env target_aws_env self =
     (case target_aws_env ''account'' of
        None \<Rightarrow> Raised (KeyError ''account'') (children self)
      | Some acc \<Rightarrow>
     (case target_aws_env ''region'' of
        None \<Rightarrow> Raised (KeyError ''region'') (children self)
      | Some reg \<Rightarrow>
     (case PipelineDeployStage_init ext target_env \<lparr>env_account = acc, env_region = reg\<rparr> of
        Some e \<Rightarrow> Raised e (children self)
      | None \<Rightarrow>
          let pipeline_deploy_stage =
                \<lparr>deploy_stage_id = target_env,
                 stage_target_environment = target_env,
                 stage_env = \<lparr>env_account = acc, env_region = reg\<rparr>,
                 aspects = [AwsSolutionsChecks]\<rparr>;
              self1 = add_child (StageC pipeline_deploy_stage) self;
              pipeline1 = pipeline\<lparr>added_stages :=
                            added_stages pipeline @ [deploy_stage_id pipeline_deploy_stage]\<rparr>;
              self2 = map_children
                        (update_codepipeline (codepipeline_id pipeline) (\<lambda>p. pipeline1)) self1
          in (case build_pipeline ext pipeline1 of
                Inl e \<Rightarrow> Raised e (children self2)
              | Inr built \<Rightarrow>
                  let self3 = map_children
                                (update_pipeline (code_pipeline pipeline1)
                                   (\<lambda>p. p\<lparr>stages := built\<rparr>)) self2
                  in (case stages_loop built self3 of
                        (Some e, self4) \<Rightarrow> Raised e (children self4)
                      | (None, self4) \<Rightarrow>
                          Returned (finish_pipeline code_pipeline' pipeline1 self4))))))"

definition create_environment_pipeline ::
  "externals \<Rightarrow> PipelineStack \<Rightarrow> string \<Rightarrow> (string \<rightharpoonup> string) \<Rightarrow> result" where
  "create_environment_pipeline ext self target_env target_aws_env =
     (let (bucket, self1) = get_artifact_bucket self;
          code_pipeline' =
            \<lparr>pipeline_id = target_env @ logical_id_prefix self @ ''EtlPipeline'',
             pipeline_name =
               lower target_env @ ''-'' @ resource_name_prefix self @ ''-etl-pipeline'',
             cross_account_keys = True,
             pipeline_type = V2,
             execution_mode = QUEUED,
             artifact_bucket = bucket_id bucket,
             stages = [],
             pipeline_suppressions = []\<rparr>;
          self2 = add_child (PipelineC code_pipeline') self1
      in (case get_codepipeline_source ext self2 of
            Inl e \<Rightarrow> Raised e (children self2)
          | Inr source \<Rightarrow>
              let synth_step =
                    \<lparr>step_id = ''Synth'', input = source, commands = synth_commands\<rparr>;
                  pipeline =
                    \<lparr>codepipeline_id = target_env @ logical_id_prefix self @ ''EtlCodePipeline'',
                     code_build_defaults = code_build_opt self,
                     self_mutation = True,
                     synth = synth_step,
                     code_pipeline = pipeline_id code_pipeline',
                     added_stages = [],
                     codepipeline_suppressions = []\<rparr>;
                  self3 = add_child (CodePipelineC pipeline) self2
              in deploy_and_build ext code_pipeline' pipeline target_env target_aws_env self3))"

subsubsection \<open>\<^verbatim>\<open>__init__\<close>\<close>

text \<open>
  Lines 55 to 67: the attributes of the stack, once the three configuration calls have
  returned. \<open>env\<close> is the \<^verbatim>\<open>env\<close> among the keyword arguments passed up to \<^verbatim>\<open>cdk.Stack\<close>,
  which gives the stack its \<^verbatim>\<open>account\<close> and \<^verbatim>\<open>region\<close>.
\<close>

definition init_attributes ::
  "externals \<Rightarrow> string \<Rightarrow> string \<Rightarrow> string \<Rightarrow> Environment \<Rightarrow> mappings \<Rightarrow> string \<Rightarrow> string
     \<Rightarrow> PipelineStack" where
  "init_attributes ext cid target_env target_br env m lp rp =
     (let durable = (target_env = CFG_PROD ext \<or> target_env = CFG_TEST ext)
      in \<lparr>construct_id = cid,
          account = env_account env,
          region = env_region env,
          mappings = m,
          logical_id_prefix = lp,
          resource_name_prefix = rp,
          target_branch = target_br,
          target_environment = target_env,
          removal_policy = (if durable then RETAIN else DESTROY),
          log_retention = (if durable then SIX_MONTHS else ONE_MONTH),
          children = []\<rparr>)"

text \<open>
  The three configuration calls come first; an exception of theirs leaves a stack without
  children.
\<close>

definition PipelineStack_init ::
  "externals \<Rightarrow> string \<Rightarrow> string \<Rightarrow> string \<Rightarrow> (string \<rightharpoonup> string) \<Rightarrow> Environment \<Rightarrow> result" where
  "PipelineStack_init ext cid target_env target_br target_aws_env env =
     (case get_all_configurations ext of
        Inl e \<Rightarrow> Raised e []
      | Inr m \<Rightarrow>
     (case get_logical_id_prefix ext of
        Inl e \<Rightarrow> Raised e []
      | Inr lp \<Rightarrow>
     (case get_resource_name_prefix ext of
        Inl e \<Rightarrow> Raised e []
      | Inr rp \<Rightarrow>
          create_environment_pipeline ext
            (init_attributes ext cid target_env target_br env m lp rp)
            target_env target_aws_env)))"

subsection \<open>Reading the declarations of a stack\<close>

fun the_buckets :: "Construct list \<Rightarrow> Bucket list" where
  "the_buckets [] = []"
| "the_buckets (BucketC b # cs) = b # the_buckets cs"
| "the_buckets (c # cs) = the_buckets cs"

fun the_log_groups :: "Construct list \<Rightarrow> LogGroup list" where
  "the_log_groups [] = []"
| "the_log_groups (LogGroupC g # cs) = g # the_log_groups cs"
| "the_log_groups (c # cs) = the_log_groups cs"

fun the_pipelines :: "Construct list \<Rightarrow> Pipeline list" where
  "the_pipelines [] = []"
| "the_pipelines (PipelineC p # cs) = p # the_pipelines cs"
| "the_pipelines (c # cs) = the_pipelines cs"

fun the_codepipelines :: "Construct list \<Rightarrow> CodePipeline list" where
  "the_codepipelines [] = []"
| "the_codepipelines (CodePipelineC p # cs) = p # the_codepipelines cs"
| "the_codepipelines (c # cs) = the_codepipelines cs"

text \<open>The exception of a result, if it is one.\<close>

fun raised :: "result \<Rightarrow> error option" where
  "raised (Returned self) = None"
| "raised (Raised e cs) = Some e"

text \<open>The actions of category \<^verbatim>\<open>BUILD\<close> in a list of stages, in the order of the two loops.\<close>

definition build_actions :: "IStage list \<Rightarrow> IAction list" where
  "build_actions sts =
     filter (\<lambda>a. category (action_properties a) = BUILD) (concat (map actions sts))"

subsection \<open>A concrete composition\<close>

text \<open>
  The inputs of \<^verbatim>\<open>test_pipeline_pulls_source_from_github\<close>: the prefixes and the repository
  of its mocked configuration, a pipeline whose built stages hold a source action, the two
  build actions of the synth and the self-mutation step, and a deploy action.
\<close>

definition example_stages :: "IStage list" where
  "example_stages =
     [\<lparr>stage_name = ''Source'',
       actions = [\<lparr>action_properties =
                    \<lparr>action_name = ''Source'', category = SOURCE, resource = None\<rparr>\<rparr>]\<rparr>,
      \<lparr>stage_name = ''Build'',
       actions = [\<lparr>action_properties =
                    \<lparr>action_name = ''Synth'', category = BUILD,
                     resource = Some \<lparr>project_name = ''SynthProject''\<rparr>\<rparr>\<rparr>]\<rparr>,
      \<lparr>stage_name = ''UpdatePipeline'',
       actions = [\<lparr>action_properties =
                    \<lparr>action_name = ''SelfMutate'', category = BUILD,
                     resource = Some \<lparr>project_name = ''SelfMutateProject''\<rparr>\<rparr>\<rparr>]\<rparr>,
      \<lparr>stage_name = ''Prod'',
       actions = [\<lparr>action_properties =
                    \<lparr>action_name = ''Deploy'', category = DEPLOY, resource = None\<rparr>\<rparr>]\<rparr>]"

definition example_mappings :: mappings where
  "example_mappings =
     [''Deploy'' \<mapsto>
        [''github_repository_name'' \<mapsto> PyStr ''mock-github-repository'',
         ''github_repository_owner_name'' \<mapsto> PyStr ''hernandj'']]"

definition example_externals :: externals where
  "example_externals =
     \<lparr>CFG_PROD = ''Prod'', CFG_TEST = ''Test'', DEPLOYMENT = ''Deploy'',
      GITHUB_REPOSITORY_NAME = ''github_repository_name'',
      GITHUB_REPOSITORY_OWNER_NAME = ''github_repository_owner_name'',
      get_all_configurations = Inr example_mappings,
      get_logical_id_prefix = Inr ''TestLake'',
      get_resource_name_prefix = Inr ''testlake'',
      PipelineDeployStage_init = (\<lambda>t e. None),
      build_pipeline = (\<lambda>p. Inr example_stages)\<rparr>"

definition example_target_aws_env :: "string \<rightharpoonup> string" where
  "example_target_aws_env = [''account'' \<mapsto> ''123456789012'', ''region'' \<mapsto> ''us-east-2'']"

definition example_env :: Environment where
  "example_env = \<lparr>env_account = ''123456789012'', env_region = ''us-east-2''\<rparr>"

text \<open>The composition of the pipeline stack of an environment with these inputs.\<close>

definition example_composition :: "string \<Rightarrow> result" where
  "example_composition target_env =
     PipelineStack_init example_externals (target_env @ ''-PipelineStackForTests'') target_env
       ''main'' example_target_aws_env example_env"

text \<open>
  Variants of the inputs: a configuration whose deployment section has an empty repository
  name, one whose deployment section has no repository name at all, and one whose
  configuration cannot be resolved.
\<close>

definition example_deployment_empty_name :: "string \<rightharpoonup> py_value" where
  "example_deployment_empty_name = [''github_repository_name'' \<mapsto> PyStr []]"

definition example_mappings_empty_name :: mappings where
  "example_mappings_empty_name = [''Deploy'' \<mapsto> example_deployment_empty_name]"

definition example_externals_empty_name :: externals where
  "example_externals_empty_name =
     example_externals\<lparr>get_all_configurations := Inr example_mappings_empty_name\<rparr>"

definition example_externals_absent_name :: externals where
  "example_externals_absent_name =
     example_externals\<lparr>get_all_configurations :=
       Inr [''Deploy'' \<mapsto> [''github_repository_owner_name'' \<mapsto> PyStr ''hernandj'']]\<rparr>"

definition example_externals_unresolved :: externals where
  "example_externals_unresolved =
     example_externals\<lparr>get_resource_name_prefix :=
       Inl (ConfigurationError ''resource_name_prefix'')\<rparr>"

text \<open>
  The same configuration with one more section, for another environment, and one more key
  in the deployment section.
\<close>

definition example_mappings_extended :: mappings where
  "example_mappings_extended =
     [''Deploy'' \<mapsto>
        [''github_repository_name'' \<mapsto> PyStr ''mock-github-repository'',
         ''github_repository_owner_name'' \<mapsto> PyStr ''hernandj'',
         ''lineage'' \<mapsto> PyBool True],
      ''Dev'' \<mapsto> [''glue_version'' \<mapsto> PyStr ''4.0'']]"

definition example_externals_extended :: externals where
  "example_externals_extended =
     example_externals\<lparr>get_all_configurations := Inr example_mappings_extended\<rparr>"

section \<open>Properties of the composition\<close>

subsection \<open>Reading declarations off a list of children\<close>

lemma the_buckets_append: "the_buckets (xs @ ys) = the_buckets xs @ the_buckets ys"
  by (induction xs rule: the_buckets.induct) simp_all

lemma the_log_groups_append: "the_log_groups (xs @ ys) = the_log_groups xs @ the_log_groups ys"
  by (induction xs rule: the_log_groups.induct) simp_all

lemma the_pipelines_append: "the_pipelines (xs @ ys) = the_pipelines xs @ the_pipelines ys"
  by (induction xs rule: the_pipelines.induct) simp_all

lemma the_codepipelines_append:
  "the_codepipelines (xs @ ys) = the_codepipelines xs @ the_codepipelines ys"
  by (induction xs rule: the_codepipelines.induct) simp_all

lemma the_buckets_LogGroupC: "the_buckets (map LogGroupC gs) = []"
  by (induction gs) simp_all

lemma the_pipelines_LogGroupC: "the_pipelines (map LogGroupC gs) = []"
  by (induction gs) simp_all

lemma the_codepipelines_LogGroupC: "the_codepipelines (map LogGroupC gs) = []"
  by (induction gs) simp_all

lemma the_log_groups_LogGroupC: "the_log_groups (map LogGroupC gs) = gs"
  by (induction gs) simp_all

lemma update_bucket_LogGroupC: "map (update_bucket i f) (map LogGroupC gs) = map LogGroupC gs"
  by (induction gs) simp_all

lemma update_pipeline_LogGroupC: "map (update_pipeline i f) (map LogGroupC gs) = map LogGroupC gs"
  by (induction gs) simp_all

lemma update_codepipeline_LogGroupC:
  "map (update_codepipeline i f) (map LogGroupC gs) = map LogGroupC gs"
  by (induction gs) simp_all

lemma action_log_group_children:
  "action_log_group (self\<lparr>children := cs\<rparr>) = action_log_group self"
  by (rule ext)+ (simp add: action_log_group_def)

lemma actions_loop_frame:
  "actions_loop as self = (r, self') \<Longrightarrow>
     \<exists>gs. self' = self\<lparr>children := children self @ map LogGroupC gs\<rparr> \<and>
       (\<forall>g \<in> set gs. log_group_removal_policy g = removal_policy self \<and>
                      retention g = log_retention self) \<and>
       (r = None \<longrightarrow>
          map Some gs =
            map (\<lambda>a. map_option (action_log_group self a) (resource (action_properties a)))
              (filter (\<lambda>a. category (action_properties a) = BUILD) as))"
proof (induction as arbitrary: self)
  case Nil
  then have "self' = self\<lparr>children := children self @ map LogGroupC []\<rparr>" and "r = None"
    by simp_all
  then show ?case by (intro exI [of _ "[]"]) simp
next
  case (Cons a as)
  show ?case
  proof (cases "category (action_properties a) = BUILD")
    case False
    with Cons.prems have "actions_loop as self = (r, self')" by simp
    from Cons.IH [OF this] False show ?thesis by simp
  next
    case True
    show ?thesis
    proof (cases "resource (action_properties a)")
      case None
      with True Cons.prems
      have "self' = self\<lparr>children := children self @ map LogGroupC []\<rparr>" and "r \<noteq> None"
        by auto
      then show ?thesis by (intro exI [of _ "[]"]) auto
    next
      case (Some project)
      let ?g = "action_log_group self a project"
      let ?self1 = "add_child (LogGroupC ?g) self"
      from True Some Cons.prems have "actions_loop as ?self1 = (r, self')" by simp
      from Cons.IH [OF this] obtain gs where
        gs: "self' = ?self1\<lparr>children := children ?self1 @ map LogGroupC gs\<rparr>"
          "\<forall>g \<in> set gs. log_group_removal_policy g = removal_policy ?self1 \<and>
                         retention g = log_retention ?self1"
          "r = None \<longrightarrow>
             map Some gs =
               map (\<lambda>a. map_option (action_log_group ?self1 a) (resource (action_properties a)))
                 (filter (\<lambda>a. category (action_properties a) = BUILD) as)"
        by blast
      have "self' = self\<lparr>children := children self @ map LogGroupC (?g # gs)\<rparr>"
        using gs(1) by (simp add: add_child_def)
      moreover have "\<forall>g \<in> set (?g # gs). log_group_removal_policy g = removal_policy self \<and>
                         retention g = log_retention self"
        using gs(2) by (simp add: add_child_def action_log_group_def)
      moreover have "r = None \<longrightarrow>
             map Some (?g # gs) =
               map (\<lambda>a. map_option (action_log_group self a) (resource (action_properties a)))
                 (filter (\<lambda>a. category (action_properties a) = BUILD) (a # as))"
        using gs(3) True Some by (simp add: add_child_def action_log_group_children)
      ultimately show ?thesis by blast
    qed
  qed
qed

lemma stages_loop_frame:
  "stages_loop sts self = (r, self') \<Longrightarrow>
     \<exists>gs. self' = self\<lparr>children := children self @ map LogGroupC gs\<rparr> \<and>
       (\<forall>g \<in> set gs. log_group_removal_policy g = removal_policy self \<and>
                      retention g = log_retention self) \<and>
       (r = None \<longrightarrow>
          map Some gs =
            map (\<lambda>a. map_option (action_log_group self a) (resource (action_properties a)))
              (build_actions sts))"
proof (induction sts arbitrary: self)
  case Nil
  then have "self' = self\<lparr>children := children self @ map LogGroupC []\<rparr>" and "r = None"
    by simp_all
  then show ?case by (intro exI [of _ "[]"]) (simp add: build_actions_def)
next
  case (Cons s sts)
  obtain r1 self1 where s1: "actions_loop (actions s) self = (r1, self1)"
    by (cases "actions_loop (actions s) self")
  from actions_loop_frame [OF s1] obtain gs1 where
    gs1: "self1 = self\<lparr>children := children self @ map LogGroupC gs1\<rparr>"
      "\<forall>g \<in> set gs1. log_group_removal_policy g = removal_policy self \<and>
                      retention g = log_retention self"
      "r1 = None \<longrightarrow>
         map Some gs1 =
           map (\<lambda>a. map_option (action_log_group self a) (resource (action_properties a)))
             (filter (\<lambda>a. category (action_properties a) = BUILD) (actions s))"
    by blast
  show ?case
  proof (cases r1)
    case (Some e)
    with s1 Cons.prems have "self' = self1" and "r \<noteq> None" by auto
    with gs1 show ?thesis by blast
  next
    case None
    with s1 Cons.prems have "stages_loop sts self1 = (r, self')" by simp
    from Cons.IH [OF this] obtain gs2 where
      gs2: "self' = self1\<lparr>children := children self1 @ map LogGroupC gs2\<rparr>"
        "\<forall>g \<in> set gs2. log_group_removal_policy g = removal_policy self1 \<and>
                        retention g = log_retention self1"
        "r = None \<longrightarrow>
           map Some gs2 =
             map (\<lambda>a. map_option (action_log_group self1 a) (resource (action_properties a)))
               (build_actions sts)"
      by blast
    have "self' = self\<lparr>children := children self @ map LogGroupC (gs1 @ gs2)\<rparr>"
      using gs1(1) gs2(1) by simp
    moreover have "\<forall>g \<in> set (gs1 @ gs2). log_group_removal_policy g = removal_policy self \<and>
                      retention g = log_retention self"
      using gs1(1,2) gs2(2) by auto
    moreover have "r = None \<longrightarrow>
          map Some (gs1 @ gs2) =
            map (\<lambda>a. map_option (action_log_group self a) (resource (action_properties a)))
              (build_actions (s # sts))"
      using gs1(1,3) gs2(3) None by (simp add: build_actions_def action_log_group_children)
    ultimately show ?thesis by blast
  qed
qed


lemma add_child_simps [simp]:
  "children (add_child c self) = children self @ [c]"
  "removal_policy (add_child c self) = removal_policy self"
  "log_retention (add_child c self) = log_retention self"
  "mappings (add_child c self) = mappings self"
  "target_branch (add_child c self) = target_branch self"
  by (simp_all add: add_child_def)

lemma map_children_simps [simp]:
  "children (map_children f self) = map f (children self)"
  "removal_policy (map_children f self) = removal_policy self"
  "log_retention (map_children f self) = log_retention self"
  by (simp_all add: map_children_def)

lemma get_codepipeline_source_children:
  "get_codepipeline_source ext (add_child c self) = get_codepipeline_source ext self"
  by (simp add: get_codepipeline_source_def split: sum.splits)

lemma create_environment_pipeline_Returned:
  assumes "create_environment_pipeline ext self t a = Returned st" and "children self = []"
  shows "\<exists>cp p s gs.
    children st =
      [BucketC (harden_artifact_bucket (removal_policy self) (fst (get_artifact_bucket self))),
       PipelineC cp, CodePipelineC p, StageC s] @ map LogGroupC gs \<and>
    map Some gs =
      map (\<lambda>x. map_option (action_log_group self x) (resource (action_properties x)))
        (build_actions (stages cp)) \<and>
    get_codepipeline_source ext self = Inr (input (synth p)) \<and>
    commands (synth p) = synth_commands \<and> self_mutation p"
  using assms
  apply (simp add: create_environment_pipeline_def deploy_and_build_def get_artifact_bucket_def
      finish_pipeline_def Let_def get_codepipeline_source_children
      split: sum.splits option.splits prod.splits)
  apply (auto dest!: stages_loop_frame simp: update_bucket_LogGroupC update_pipeline_LogGroupC
      update_codepipeline_LogGroupC action_log_group_children add_child_def map_children_def
      comp_def)
  done


lemma the_log_groups_update [simp]:
  "the_log_groups (map (update_bucket i f) cs) = the_log_groups cs"
  "the_log_groups (map (update_pipeline i g) cs) = the_log_groups cs"
  "the_log_groups (map (update_codepipeline i h) cs) = the_log_groups cs"
  by (induction cs rule: the_log_groups.induct) simp_all

lemma create_environment_pipeline_policies:
  assumes "children self = []"
  shows "(\<forall>b \<in> set (the_buckets (declarations (create_environment_pipeline ext self t a))).
            bucket_removal_policy b = removal_policy self) \<and>
         (\<forall>g \<in> set (the_log_groups (declarations (create_environment_pipeline ext self t a))).
            log_group_removal_policy g = removal_policy self \<and>
            retention g = log_retention self)"
  using assms
  apply (simp add: create_environment_pipeline_def deploy_and_build_def get_artifact_bucket_def
      finish_pipeline_def Let_def
      split: sum.splits option.splits prod.splits)
  apply (auto dest!: stages_loop_frame simp: update_bucket_LogGroupC update_pipeline_LogGroupC
      update_codepipeline_LogGroupC add_child_def map_children_def harden_artifact_bucket_def
      the_log_groups_append the_log_groups_LogGroupC the_buckets_append the_buckets_LogGroupC
      comp_def)
  done

lemma create_environment_pipeline_source:
  assumes "children self = []" and "get_codepipeline_source ext self = Inr src"
  shows "map (\<lambda>p. input (synth p))
           (the_codepipelines (declarations (create_environment_pipeline ext self t a))) = [src]"
  using assms
  apply (simp add: create_environment_pipeline_def deploy_and_build_def get_artifact_bucket_def
      finish_pipeline_def Let_def get_codepipeline_source_children
      split: sum.splits option.splits prod.splits)
  apply (auto dest!: stages_loop_frame simp: update_bucket_LogGroupC update_pipeline_LogGroupC
      update_codepipeline_LogGroupC add_child_def map_children_def
      the_codepipelines_append the_codepipelines_LogGroupC comp_def)
  done


lemma example_raised: "raised (example_composition ''Prod'') = None"
  by (simp add: example_composition_def PipelineStack_init_def example_externals_def
      init_attributes_def create_environment_pipeline_def get_artifact_bucket_def get_codepipeline_source_def
      subscript_def example_mappings_def deploy_and_build_def example_target_aws_env_def
      example_stages_def Let_def)

lemma example_log_groups:
  "the_log_groups (declarations (example_composition ''Prod'')) =
     [\<lparr>log_group_id = ''CodeBuildActionSynthLogGroup'',
       log_group_name = ''/aws/codebuild/SynthProject'',
       log_group_removal_policy = RETAIN, retention = SIX_MONTHS\<rparr>,
      \<lparr>log_group_id = ''CodeBuildActionSelfMutateLogGroup'',
       log_group_name = ''/aws/codebuild/SelfMutateProject'',
       log_group_removal_policy = RETAIN, retention = SIX_MONTHS\<rparr>]"
  by (simp add: example_composition_def PipelineStack_init_def example_externals_def
      init_attributes_def create_environment_pipeline_def get_artifact_bucket_def get_codepipeline_source_def
      subscript_def example_mappings_def deploy_and_build_def example_target_aws_env_def
      example_stages_def Let_def finish_pipeline_def action_log_group_def add_child_def
      map_children_def)


lemma init_attributes_simps [simp]:
  "children (init_attributes ext cid t br env m lp rp) = []"
  "removal_policy (init_attributes ext cid t br env m lp rp) =
     (if t = CFG_PROD ext \<or> t = CFG_TEST ext then RETAIN else DESTROY)"
  "log_retention (init_attributes ext cid t br env m lp rp) =
     (if t = CFG_PROD ext \<or> t = CFG_TEST ext then SIX_MONTHS else ONE_MONTH)"
  "mappings (init_attributes ext cid t br env m lp rp) = m"
  "target_branch (init_attributes ext cid t br env m lp rp) = br"
  "target_environment (init_attributes ext cid t br env m lp rp) = t"
  "logical_id_prefix (init_attributes ext cid t br env m lp rp) = lp"
  "resource_name_prefix (init_attributes ext cid t br env m lp rp) = rp"
  by (simp_all add: init_attributes_def Let_def)

lemma PipelineStack_init_cases:
  obtains (config) e where "PipelineStack_init ext cid t br a env = Raised e []"
  | (composed) m lp rp where
      "get_all_configurations ext = Inr m"
      "get_logical_id_prefix ext = Inr lp"
      "get_resource_name_prefix ext = Inr rp"
      "PipelineStack_init ext cid t br a env =
         create_environment_pipeline ext (init_attributes ext cid t br env m lp rp) t a"
proof (cases "get_all_configurations ext")
  case (Inl e)
  then have "PipelineStack_init ext cid t br a env = Raised e []"
    by (simp add: PipelineStack_init_def)
  then show ?thesis by (rule config)
next
  case m: (Inr m)
  show ?thesis
  proof (cases "get_logical_id_prefix ext")
    case (Inl e)
    with m have "PipelineStack_init ext cid t br a env = Raised e []"
      by (simp add: PipelineStack_init_def)
    then show ?thesis by (rule config)
  next
    case lp: (Inr lp)
    show ?thesis
    proof (cases "get_resource_name_prefix ext")
      case (Inl e)
      with m lp have "PipelineStack_init ext cid t br a env = Raised e []"
        by (simp add: PipelineStack_init_def)
      then show ?thesis by (rule config)
    next
      case rp: (Inr rp)
      with m lp have "PipelineStack_init ext cid t br a env =
         create_environment_pipeline ext (init_attributes ext cid t br env m lp rp) t a"
        by (simp add: PipelineStack_init_def)
      with m lp rp show ?thesis by (rule composed)
    qed
  qed
qed

lemma raised_None: "raised r = None \<Longrightarrow> \<exists>self. r = Returned self"
  by (cases r) simp_all

subsection \<open>One log group per build action\<close>

text \<open>
  Claim C6. When the composition returns, the stack holds one pipeline, and the log groups
  of the stack are, in order, one for each action of category \<^verbatim>\<open>BUILD\<close> in the stages of
  that pipeline: as many log groups as build actions, each named \<^verbatim>\<open>/aws/codebuild/\<close>
  followed by the project name of the action's resource (so every build action has such a
  resource), with the id \<^verbatim>\<open>CodeBuildAction<action name>LogGroup\<close>.
\<close>

theorem log_group_per_build_action:
  assumes "raised (PipelineStack_init ext cid t br a env) = None"
  shows "\<exists>cp. the_pipelines (declarations (PipelineStack_init ext cid t br a env)) = [cp] \<and>
    length (the_log_groups (declarations (PipelineStack_init ext cid t br a env))) =
      length (build_actions (stages cp)) \<and>
    map (\<lambda>g. Some (log_group_name g))
        (the_log_groups (declarations (PipelineStack_init ext cid t br a env))) =
      map (\<lambda>x. map_option (\<lambda>p. ''/aws/codebuild/'' @ project_name p)
                 (resource (action_properties x)))
        (build_actions (stages cp)) \<and>
    map log_group_id (the_log_groups (declarations (PipelineStack_init ext cid t br a env))) =
      map (\<lambda>x. ''CodeBuildAction'' @ action_name (action_properties x) @ ''LogGroup'')
        (build_actions (stages cp))"
proof (cases rule: PipelineStack_init_cases [of ext cid t br a env])
  case (config e)
  with assms show ?thesis by simp
next
  case (composed m lp rp)
  let ?self = "init_attributes ext cid t br env m lp rp"
  from assms composed(4) obtain st where
    st: "create_environment_pipeline ext ?self t a = Returned st"
    by (auto dest: raised_None)
  from create_environment_pipeline_Returned [OF st] obtain b cp p s gs where
    shape: "children st = [BucketC b, PipelineC cp, CodePipelineC p, StageC s] @ map LogGroupC gs"
    and gs: "map Some gs =
      map (\<lambda>x. map_option (action_log_group ?self x) (resource (action_properties x)))
        (build_actions (stages cp))"
    by auto
  have lgs: "the_log_groups (declarations (PipelineStack_init ext cid t br a env)) = gs"
    using composed(4) st shape by (simp add: the_log_groups_LogGroupC)
  have pls: "the_pipelines (declarations (PipelineStack_init ext cid t br a env)) = [cp]"
    using composed(4) st shape by (simp add: the_pipelines_LogGroupC)
  have len: "length gs = length (build_actions (stages cp))"
    using arg_cong [OF gs, of length] by simp
  have "map (\<lambda>g. Some (log_group_name g)) gs = map (map_option log_group_name) (map Some gs)"
    by simp
  also have "\<dots> = map (\<lambda>x. map_option (\<lambda>p. ''/aws/codebuild/'' @ project_name p)
                 (resource (action_properties x))) (build_actions (stages cp))"
    unfolding gs by (simp add: option.map_comp comp_def action_log_group_def)
  finally have names: "map (\<lambda>g. Some (log_group_name g)) gs =
      map (\<lambda>x. map_option (\<lambda>p. ''/aws/codebuild/'' @ project_name p)
                 (resource (action_properties x))) (build_actions (stages cp))" .
  have "map (\<lambda>g. Some (log_group_id g)) gs = map (map_option log_group_id) (map Some gs)"
    by simp
  also have "\<dots> = map (\<lambda>x. map_option (\<lambda>p. ''CodeBuildAction'' @ action_name (action_properties x) @ ''LogGroup'')
                 (resource (action_properties x))) (build_actions (stages cp))"
    unfolding gs by (simp add: option.map_comp comp_def action_log_group_def)
  finally have ids0: "map (\<lambda>g. Some (log_group_id g)) gs =
     map (\<lambda>x. map_option (\<lambda>p. ''CodeBuildAction'' @ action_name (action_properties x) @ ''LogGroup'')
                 (resource (action_properties x))) (build_actions (stages cp))" .
  have ids: "map log_group_id gs =
      map (\<lambda>x. ''CodeBuildAction'' @ action_name (action_properties x) @ ''LogGroup'')
        (build_actions (stages cp))"
  proof (rule nth_equalityI)
    show "length (map log_group_id gs) = length (map (\<lambda>x. ''CodeBuildAction'' @ action_name (action_properties x) @ ''LogGroup'')
        (build_actions (stages cp)))" using len by simp
  next
    fix i assume i: "i < length (map log_group_id gs)"
    then have i1: "i < length gs" and i2: "i < length (build_actions (stages cp))"
      using len by simp_all
    from arg_cong [OF gs, of "\<lambda>xs. xs ! i"] i1 i2
    have "Some (gs ! i) = map_option (action_log_group ?self (build_actions (stages cp) ! i))
            (resource (action_properties (build_actions (stages cp) ! i)))"
      by simp
    then have "log_group_id (gs ! i) =
        ''CodeBuildAction'' @ action_name (action_properties (build_actions (stages cp) ! i)) @ ''LogGroup''"
      by (cases "resource (action_properties (build_actions (stages cp) ! i))")
        (auto simp: action_log_group_def)
    with i1 i2 show "map log_group_id gs ! i =
      map (\<lambda>x. ''CodeBuildAction'' @ action_name (action_properties x) @ ''LogGroup'')
        (build_actions (stages cp)) ! i" by simp
  qed
  from pls len names ids show ?thesis unfolding lgs by blast
qed


theorem log_group_per_build_action_witness:
  "raised (example_composition ''Prod'') = None \<and>
   length (the_log_groups (declarations (example_composition ''Prod''))) = 2 \<and>
   (\<exists>cp. the_pipelines (declarations (example_composition ''Prod'')) = [cp] \<and>
      length (the_log_groups (declarations (example_composition ''Prod''))) =
        length (build_actions (stages cp)) \<and>
      map (\<lambda>g. Some (log_group_name g))
          (the_log_groups (declarations (example_composition ''Prod''))) =
        map (\<lambda>x. map_option (\<lambda>p. ''/aws/codebuild/'' @ project_name p)
                   (resource (action_properties x)))
          (build_actions (stages cp)) \<and>
      map log_group_id (the_log_groups (declarations (example_composition ''Prod''))) =
        map (\<lambda>x. ''CodeBuildAction'' @ action_name (action_properties x) @ ''LogGroup'')
          (build_actions (stages cp)))"
  using log_group_per_build_action [of example_externals "''Prod-PipelineStackForTests''"
      "''Prod''" "''main''" example_target_aws_env example_env]
    example_raised example_log_groups
  by (simp add: example_composition_def)


subsection \<open>The artifact bucket\<close>

lemma example_buckets:
  "the_buckets (declarations (example_composition ''Prod'')) =
     [\<lparr>bucket_id = ''ProdTestLakeEtlPipeline-Artifact'',
       bucket_name = ''prod-testlake-etl-pipeline-artifact'',
       access_control = PRIVATE,
       block_public_access = BLOCK_ALL,
       enforce_ssl = True,
       bucket_key_enabled = True,
       encryption = KMS,
       public_read_access = False,
       bucket_removal_policy = RETAIN,
       versioned = True,
       object_ownership = OBJECT_WRITER,
       logging_configuration = Some ''access-logs'',
       enable_key_rotation = Some True,
       property_overrides = [(''VersioningConfiguration.Status'', ''Enabled'')]\<rparr>]"
  by (simp add: example_composition_def PipelineStack_init_def example_externals_def
      init_attributes_def create_environment_pipeline_def get_artifact_bucket_def
      get_codepipeline_source_def subscript_def example_mappings_def deploy_and_build_def
      example_target_aws_env_def example_stages_def Let_def finish_pipeline_def
      action_log_group_def add_child_def map_children_def harden_artifact_bucket_def
      lower_def lower_char_def)

text \<open>
  Claim C10. When the composition returns, the stack holds one bucket, the artifact bucket,
  and every setting of it is fixed but three: its id and its name, which spell the
  environment and the prefixes, and its removal policy, which follows the class of the
  environment. Public access is blocked and public reads are off, SSL is enforced, the
  encryption is KMS with the rotation of the key enabled, the access control is private,
  versioning is on (as a property and as the override of the CloudFormation resource), and
  the access logs go under the prefix \<^verbatim>\<open>access-logs\<close>.
\<close>

theorem artifact_bucket_hardened:
  assumes "raised (PipelineStack_init ext cid t br a env) = None"
  shows "\<exists>lp rp. get_logical_id_prefix ext = Inr lp \<and> get_resource_name_prefix ext = Inr rp \<and>
    the_buckets (declarations (PipelineStack_init ext cid t br a env)) =
      [\<lparr>bucket_id = t @ lp @ ''EtlPipeline-Artifact'',
        bucket_name = lower t @ ''-'' @ rp @ ''-etl-pipeline-artifact'',
        access_control = PRIVATE,
        block_public_access = BLOCK_ALL,
        enforce_ssl = True,
        bucket_key_enabled = True,
        encryption = KMS,
        public_read_access = False,
        bucket_removal_policy =
          (if t = CFG_PROD ext \<or> t = CFG_TEST ext then RETAIN else DESTROY),
        versioned = True,
        object_ownership = OBJECT_WRITER,
        logging_configuration = Some ''access-logs'',
        enable_key_rotation = Some True,
        property_overrides = [(''VersioningConfiguration.Status'', ''Enabled'')]\<rparr>]"
proof (cases rule: PipelineStack_init_cases [of ext cid t br a env])
  case (config e)
  with assms show ?thesis by simp
next
  case (composed m lp rp)
  let ?self = "init_attributes ext cid t br env m lp rp"
  from assms composed(4) obtain st where
    st: "create_environment_pipeline ext ?self t a = Returned st"
    by (auto dest: raised_None)
  from create_environment_pipeline_Returned [OF st] obtain cp p s gs where
    shape: "children st =
      [BucketC (harden_artifact_bucket (removal_policy ?self) (fst (get_artifact_bucket ?self))),
       PipelineC cp, CodePipelineC p, StageC s] @ map LogGroupC gs"
    by auto
  have "the_buckets (declarations (PipelineStack_init ext cid t br a env)) =
      [harden_artifact_bucket (removal_policy ?self) (fst (get_artifact_bucket ?self))]"
    using composed(4) st shape by (simp add: the_buckets_LogGroupC)
  also have "harden_artifact_bucket (removal_policy ?self) (fst (get_artifact_bucket ?self)) =
      \<lparr>bucket_id = t @ lp @ ''EtlPipeline-Artifact'',
        bucket_name = lower t @ ''-'' @ rp @ ''-etl-pipeline-artifact'',
        access_control = PRIVATE,
        block_public_access = BLOCK_ALL,
        enforce_ssl = True,
        bucket_key_enabled = True,
        encryption = KMS,
        public_read_access = False,
        bucket_removal_policy =
          (if t = CFG_PROD ext \<or> t = CFG_TEST ext then RETAIN else DESTROY),
        versioned = True,
        object_ownership = OBJECT_WRITER,
        logging_configuration = Some ''access-logs'',
        enable_key_rotation = Some True,
        property_overrides = [(''VersioningConfiguration.Status'', ''Enabled'')]\<rparr>"
    by (simp add: harden_artifact_bucket_def get_artifact_bucket_def Let_def)
  finally show ?thesis using composed(2,3) by simp
qed

theorem artifact_bucket_hardened_witness:
  "raised (example_composition ''Prod'') = None \<and>
   (\<exists>lp rp. Inr ''TestLake'' = (Inr lp :: error + string) \<and>
      Inr ''testlake'' = (Inr rp :: error + string) \<and>
      the_buckets (declarations (example_composition ''Prod'')) =
        [\<lparr>bucket_id = ''Prod'' @ lp @ ''EtlPipeline-Artifact'',
          bucket_name = lower ''Prod'' @ ''-'' @ rp @ ''-etl-pipeline-artifact'',
          access_control = PRIVATE,
          block_public_access = BLOCK_ALL,
          enforce_ssl = True,
          bucket_key_enabled = True,
          encryption = KMS,
          public_read_access = False,
          bucket_removal_policy = RETAIN,
          versioned = True,
          object_ownership = OBJECT_WRITER,
          logging_configuration = Some ''access-logs'',
          enable_key_rotation = Some True,
          property_overrides = [(''VersioningConfiguration.Status'', ''Enabled'')]\<rparr>])"
  using artifact_bucket_hardened [of example_externals "''Prod-PipelineStackForTests''"
      "''Prod''" "''main''" example_target_aws_env example_env]
    example_raised
  by (simp add: example_composition_def example_externals_def)

subsection \<open>Removal policy and log retention\<close>

lemma example_dev:
  "the_buckets (declarations (example_composition ''Dev'')) \<noteq> [] \<and>
   the_log_groups (declarations (example_composition ''Dev'')) \<noteq> []"
  by (simp add: example_composition_def PipelineStack_init_def example_externals_def
      init_attributes_def create_environment_pipeline_def get_artifact_bucket_def
      get_codepipeline_source_def subscript_def example_mappings_def deploy_and_build_def
      example_target_aws_env_def example_stages_def Let_def finish_pipeline_def
      action_log_group_def add_child_def map_children_def)

text \<open>
  Claim C1. Whatever the composition of a pipeline stack ends with, every bucket and every
  log group the stack holds has the policy of the class of the target environment: removal
  policy \<^verbatim>\<open>RETAIN\<close> and a retention of six months when the target environment is \<^verbatim>\<open>PROD\<close> or
  \<^verbatim>\<open>TEST\<close>, removal policy \<^verbatim>\<open>DESTROY\<close> and a retention of one month for every other one.
\<close>

theorem policy_by_environment_class:
  "(\<forall>b \<in> set (the_buckets (declarations (PipelineStack_init ext cid t br a env))).
      bucket_removal_policy b =
        (if t = CFG_PROD ext \<or> t = CFG_TEST ext then RETAIN else DESTROY)) \<and>
   (\<forall>g \<in> set (the_log_groups (declarations (PipelineStack_init ext cid t br a env))).
      log_group_removal_policy g =
        (if t = CFG_PROD ext \<or> t = CFG_TEST ext then RETAIN else DESTROY) \<and>
      retention g =
        (if t = CFG_PROD ext \<or> t = CFG_TEST ext then SIX_MONTHS else ONE_MONTH))"
proof (cases rule: PipelineStack_init_cases [of ext cid t br a env])
  case (config e)
  then show ?thesis by simp
next
  case (composed m lp rp)
  have "children (init_attributes ext cid t br env m lp rp) = []" by simp
  from create_environment_pipeline_policies [OF this, of ext t a] composed(4)
  show ?thesis by simp
qed

theorem policy_by_environment_class_witness:
  "the_buckets (declarations (example_composition ''Prod'')) \<noteq> [] \<and>
   the_log_groups (declarations (example_composition ''Prod'')) \<noteq> [] \<and>
   list_all (\<lambda>b. bucket_removal_policy b = RETAIN)
     (the_buckets (declarations (example_composition ''Prod''))) \<and>
   list_all (\<lambda>g. log_group_removal_policy g = RETAIN \<and> retention g = SIX_MONTHS)
     (the_log_groups (declarations (example_composition ''Prod''))) \<and>
   the_buckets (declarations (example_composition ''Dev'')) \<noteq> [] \<and>
   the_log_groups (declarations (example_composition ''Dev'')) \<noteq> [] \<and>
   list_all (\<lambda>b. bucket_removal_policy b = DESTROY)
     (the_buckets (declarations (example_composition ''Dev''))) \<and>
   list_all (\<lambda>g. log_group_removal_policy g = DESTROY \<and> retention g = ONE_MONTH)
     (the_log_groups (declarations (example_composition ''Dev'')))"
proof -
  have prod: "''Prod'' = CFG_PROD example_externals \<or> ''Prod'' = CFG_TEST example_externals"
    by (simp add: example_externals_def)
  have dev: "\<not> (''Dev'' = CFG_PROD example_externals \<or> ''Dev'' = CFG_TEST example_externals)"
    by (simp add: example_externals_def)
  have "the_buckets (declarations (example_composition ''Prod'')) \<noteq> []"
    and "the_log_groups (declarations (example_composition ''Prod'')) \<noteq> []"
    by (simp_all add: example_buckets example_log_groups)
  moreover note example_dev
  moreover have "list_all (\<lambda>b. bucket_removal_policy b = RETAIN)
       (the_buckets (declarations (example_composition ''Prod''))) \<and>
     list_all (\<lambda>g. log_group_removal_policy g = RETAIN \<and> retention g = SIX_MONTHS)
       (the_log_groups (declarations (example_composition ''Prod'')))"
    using policy_by_environment_class [of example_externals "''Prod-PipelineStackForTests''"
      "''Prod''" "''main''" example_target_aws_env example_env] prod
    by (simp add: example_composition_def list_all_iff)
  moreover have "list_all (\<lambda>b. bucket_removal_policy b = DESTROY)
       (the_buckets (declarations (example_composition ''Dev''))) \<and>
     list_all (\<lambda>g. log_group_removal_policy g = DESTROY \<and> retention g = ONE_MONTH)
       (the_log_groups (declarations (example_composition ''Dev'')))"
    using policy_by_environment_class [of example_externals "''Dev-PipelineStackForTests''"
      "''Dev''" "''main''" example_target_aws_env example_env] dev
    by (simp add: example_composition_def list_all_iff)
  ultimately show ?thesis by simp
qed

subsection \<open>The source of the pipeline\<close>

text \<open>
  Claim C4. When the composition returns and the deployment section of the configuration
  has a repository name that Python takes as true, the section has a repository owner too,
  the stack holds one CDK pipeline, and the input of its synth step, the one source the
  pipeline pulls from, is a CodeStar connection source whose repository string is the
  configured owner, a slash and the configured name, and whose branch is the
  \<^verbatim>\<open>target_branch\<close> given to the stack.
\<close>

theorem source_from_github:
  assumes "raised (PipelineStack_init ext cid t br a env) = None"
    and "get_all_configurations ext = Inr m"
    and "m (DEPLOYMENT ext) = Some d"
    and "d (GITHUB_REPOSITORY_NAME ext) = Some name"
    and "truthy name"
  shows "\<exists>owner p. d (GITHUB_REPOSITORY_OWNER_NAME ext) = Some owner \<and>
    the_codepipelines (declarations (PipelineStack_init ext cid t br a env)) = [p] \<and>
    input (synth p) =
      Some \<lparr>provider = CodeStarSourceConnection,
            source_action_name = ''Source'',
            repo_string = py_str owner @ ''/'' @ py_str name,
            branch = br,
            connection_arn =
              ''arn:aws:codestar-connections:us-east-1:787127824249:connection/ac69c4b3-c806-4b73-9bb8-df7c3a9b6162''\<rparr>"
proof (cases rule: PipelineStack_init_cases [of ext cid t br a env])
  case (config e)
  with assms(1) show ?thesis by simp
next
  case (composed m' lp rp)
  with assms(2) have m': "m' = m" by simp
  let ?self = "init_attributes ext cid t br env m lp rp"
  from assms(1) composed(4) m' obtain st where
    st: "create_environment_pipeline ext ?self t a = Returned st"
    by (auto dest: raised_None)
  from create_environment_pipeline_Returned [OF st] obtain b cp p s gs where
    shape: "children st = [BucketC b, PipelineC cp, CodePipelineC p, StageC s] @ map LogGroupC gs"
    and src: "get_codepipeline_source ext ?self = Inr (input (synth p))"
    by auto
  have pls: "the_codepipelines (declarations (PipelineStack_init ext cid t br a env)) = [p]"
    using composed(4) m' st shape by (simp add: the_codepipelines_LogGroupC)
  show ?thesis
  proof (cases "d (GITHUB_REPOSITORY_OWNER_NAME ext)")
    case None
    with src assms(3-5) show ?thesis
      by (simp add: get_codepipeline_source_def subscript_def)
  next
    case (Some owner)
    with src assms(3-5) have "input (synth p) =
      Some (connection ''Source'' (py_str owner @ ''/'' @ py_str name) br
        ''arn:aws:codestar-connections:us-east-1:787127824249:connection/ac69c4b3-c806-4b73-9bb8-df7c3a9b6162'')"
      by (simp add: get_codepipeline_source_def subscript_def)
    with Some pls show ?thesis by (simp add: connection_def)
  qed
qed

theorem source_from_github_witness:
  "raised (example_composition ''Prod'') = None \<and>
   truthy (PyStr ''mock-github-repository'') \<and>
   (\<exists>owner p. Some (PyStr ''hernandj'') = Some owner \<and>
      the_codepipelines (declarations (example_composition ''Prod'')) = [p] \<and>
      input (synth p) =
        Some \<lparr>provider = CodeStarSourceConnection,
              source_action_name = ''Source'',
              repo_string = py_str owner @ ''/'' @ ''mock-github-repository'',
              branch = ''main'',
              connection_arn =
                ''arn:aws:codestar-connections:us-east-1:787127824249:connection/ac69c4b3-c806-4b73-9bb8-df7c3a9b6162''\<rparr>)"
proof -
  have "get_all_configurations example_externals = Inr example_mappings"
    and "example_mappings (DEPLOYMENT example_externals) =
      Some [''github_repository_name'' \<mapsto> PyStr ''mock-github-repository'',
            ''github_repository_owner_name'' \<mapsto> PyStr ''hernandj'']"
    and "[''github_repository_name'' \<mapsto> PyStr ''mock-github-repository'',
          ''github_repository_owner_name'' \<mapsto> PyStr ''hernandj'']
           (GITHUB_REPOSITORY_NAME example_externals) = Some (PyStr ''mock-github-repository'')"
    and "truthy (PyStr ''mock-github-repository'')"
    and "raised (PipelineStack_init example_externals ''Prod-PipelineStackForTests'' ''Prod''
           ''main'' example_target_aws_env example_env) = None"
    using example_raised
    by (simp_all add: example_externals_def example_mappings_def example_composition_def)
  from source_from_github [OF this(5) this(1-4)] example_raised
  show ?thesis by (simp add: example_composition_def example_externals_def)
qed

subsection \<open>A repository name that is missing or empty\<close>

text \<open>
  Claim C9, as stated, fails where the key of the repository name is absent from the
  deployment section: the subscript raises \<^verbatim>\<open>KeyError\<close>, the method does not return \<^verbatim>\<open>None\<close>.
\<close>

theorem source_absent_key_counterexample:
  "get_codepipeline_source example_externals_absent_name
     (init_attributes example_externals_absent_name ''Dev-PipelineStackForTests'' ''Dev''
        ''main'' example_env
        [''Deploy'' \<mapsto> [''github_repository_owner_name'' \<mapsto> PyStr ''hernandj'']]
        ''TestLake'' ''testlake'') =
     Inl (KeyError ''github_repository_name'') \<and>
   get_codepipeline_source example_externals_absent_name
     (init_attributes example_externals_absent_name ''Dev-PipelineStackForTests'' ''Dev''
        ''main'' example_env
        [''Deploy'' \<mapsto> [''github_repository_owner_name'' \<mapsto> PyStr ''hernandj'']]
        ''TestLake'' ''testlake'') \<noteq> Inr None"
  by (simp add: get_codepipeline_source_def subscript_def example_externals_absent_name_def
      example_externals_def)

text \<open>
  Claim C9, amended. When the deployment section has the key of the repository name and
  its value is one Python takes as false (the empty string, \<^verbatim>\<open>None\<close>), the method returns
  \<^verbatim>\<open>None\<close> and raises nothing, and the composition goes on: whatever it ends with, it has
  declared the CDK pipeline, with a synth step that has no input.
\<close>

theorem source_none_when_name_falsy:
  assumes "get_all_configurations ext = Inr m"
    and "get_logical_id_prefix ext = Inr lp"
    and "get_resource_name_prefix ext = Inr rp"
    and "m (DEPLOYMENT ext) = Some d"
    and "d (GITHUB_REPOSITORY_NAME ext) = Some name"
    and "\<not> truthy name"
  shows "get_codepipeline_source ext (init_attributes ext cid t br env m lp rp) = Inr None \<and>
    map (\<lambda>p. input (synth p))
      (the_codepipelines (declarations (PipelineStack_init ext cid t br a env))) = [None]"
proof -
  let ?self = "init_attributes ext cid t br env m lp rp"
  have src: "get_codepipeline_source ext ?self = Inr None"
    using assms(4-6) by (simp add: get_codepipeline_source_def subscript_def)
  have init: "PipelineStack_init ext cid t br a env = create_environment_pipeline ext ?self t a"
    using assms(1-3) by (simp add: PipelineStack_init_def)
  have "children ?self = []" by simp
  from create_environment_pipeline_source [OF this src, of t a] src init
  show ?thesis by simp
qed

theorem source_none_when_name_falsy_witness:
  "\<not> truthy (PyStr []) \<and>
   get_codepipeline_source example_externals_empty_name
     (init_attributes example_externals_empty_name ''Dev-PipelineStackForTests'' ''Dev'' ''main''
        example_env example_mappings_empty_name ''TestLake'' ''testlake'') = Inr None \<and>
   map (\<lambda>p. input (synth p))
     (the_codepipelines (declarations
        (PipelineStack_init example_externals_empty_name ''Dev-PipelineStackForTests'' ''Dev''
           ''main'' example_target_aws_env example_env))) = [None]"
proof -
  have "get_all_configurations example_externals_empty_name = Inr example_mappings_empty_name"
    and "get_logical_id_prefix example_externals_empty_name = Inr ''TestLake''"
    and "get_resource_name_prefix example_externals_empty_name = Inr ''testlake''"
    and "example_mappings_empty_name (DEPLOYMENT example_externals_empty_name) =
         Some example_deployment_empty_name"
    and "example_deployment_empty_name (GITHUB_REPOSITORY_NAME example_externals_empty_name) =
         Some (PyStr [])"
    and "\<not> truthy (PyStr [])"
    by (simp_all add: example_externals_empty_name_def example_externals_def
        example_mappings_empty_name_def example_deployment_empty_name_def)
  from source_none_when_name_falsy [OF this, where cid = "''Dev-PipelineStackForTests''"
      and t = "''Dev''" and br = "''main''" and env = example_env and a = example_target_aws_env]
  show ?thesis by simp
qed

subsection \<open>A configuration that cannot be resolved, and keys found missing late\<close>

text \<open>
  Claim C8, as stated, fails for a key that is missing from the resolved configuration or
  from \<^verbatim>\<open>target_aws_env\<close>: the composition raises \<^verbatim>\<open>KeyError\<close> where the key is read. Without
  the repository name in the deployment section that is after the artifact bucket and the
  pipeline have been declared; without \<^verbatim>\<open>region\<close> in \<^verbatim>\<open>target_aws_env\<close>, after the artifact
  bucket, the pipeline and the CDK pipeline have been declared.
\<close>

theorem missing_key_found_late_counterexample:
  "raised (PipelineStack_init example_externals_absent_name ''Dev-PipelineStackForTests''
     ''Dev'' ''main'' example_target_aws_env example_env) =
     Some (KeyError ''github_repository_name'') \<and>
   length (declarations (PipelineStack_init example_externals_absent_name
     ''Dev-PipelineStackForTests'' ''Dev'' ''main'' example_target_aws_env example_env)) = 2 \<and>
   length (the_buckets (declarations (PipelineStack_init example_externals_absent_name
     ''Dev-PipelineStackForTests'' ''Dev'' ''main'' example_target_aws_env example_env))) = 1 \<and>
   raised (PipelineStack_init example_externals ''Dev-PipelineStackForTests''
     ''Dev'' ''main'' [''account'' \<mapsto> ''123456789012''] example_env) =
     Some (KeyError ''region'') \<and>
   length (declarations (PipelineStack_init example_externals ''Dev-PipelineStackForTests''
     ''Dev'' ''main'' [''account'' \<mapsto> ''123456789012''] example_env)) = 3"
  by (simp add: PipelineStack_init_def example_externals_absent_name_def example_externals_def
      init_attributes_def create_environment_pipeline_def get_artifact_bucket_def
      get_codepipeline_source_def subscript_def example_mappings_def deploy_and_build_def
      Let_def add_child_def)

text \<open>
  Claim C8, amended. If one of the three configuration calls at the start of the
  constructor (\<^verbatim>\<open>get_all_configurations\<close>, \<^verbatim>\<open>get_logical_id_prefix\<close>,
  \<^verbatim>\<open>get_resource_name_prefix\<close>) raises, the composition fails with that exception before any
  resource declaration is produced: the stack has no children. (A key that is missing from
  the resolved configuration is found only where it is read.)
\<close>

theorem configuration_failure_leaves_no_declaration:
  assumes "isl (get_all_configurations ext) \<or> isl (get_logical_id_prefix ext) \<or>
    isl (get_resource_name_prefix ext)"
  shows "\<exists>e. PipelineStack_init ext cid t br a env = Raised e [] \<and>
    (get_all_configurations ext = Inl e \<or> get_logical_id_prefix ext = Inl e \<or>
     get_resource_name_prefix ext = Inl e)"
  using assms by (auto simp: PipelineStack_init_def split: sum.splits)

theorem configuration_failure_leaves_no_declaration_witness:
  "isl (get_resource_name_prefix example_externals_unresolved) \<and>
   PipelineStack_init example_externals_unresolved ''Dev-PipelineStackForTests'' ''Dev'' ''main''
     example_target_aws_env example_env = Raised (ConfigurationError ''resource_name_prefix'') []"
proof -
  have unresolved: "isl (get_all_configurations example_externals_unresolved) \<or>
      isl (get_logical_id_prefix example_externals_unresolved) \<or>
      isl (get_resource_name_prefix example_externals_unresolved)"
    by (simp add: example_externals_unresolved_def)
  from configuration_failure_leaves_no_declaration [OF unresolved,
      of "''Dev-PipelineStackForTests''" "''Dev''" "''main''" example_target_aws_env example_env]
  show ?thesis
    by (auto simp: example_externals_unresolved_def example_externals_def)
qed

subsection \<open>Determinism\<close>

lemma add_child_mappings:
  "add_child c (self\<lparr>mappings := m\<rparr>) = (add_child c self)\<lparr>mappings := m\<rparr>"
  by (simp add: add_child_def)

lemma map_children_mappings:
  "map_children f (self\<lparr>mappings := m\<rparr>) = (map_children f self)\<lparr>mappings := m\<rparr>"
  by (simp add: map_children_def)

lemma action_log_group_mappings:
  "action_log_group (self\<lparr>mappings := m\<rparr>) = action_log_group self"
  by (rule ext)+ (simp add: action_log_group_def)

lemma finish_pipeline_mappings:
  "finish_pipeline cp p (self\<lparr>mappings := m\<rparr>) = (finish_pipeline cp p self)\<lparr>mappings := m\<rparr>"
  by (simp add: finish_pipeline_def map_children_def)

lemma actions_loop_mappings:
  "actions_loop as (self\<lparr>mappings := m\<rparr>) =
     (case actions_loop as self of (r, self') \<Rightarrow> (r, self'\<lparr>mappings := m\<rparr>))"
proof (induction as arbitrary: self)
  case Nil
  show ?case by simp
next
  case (Cons x as)
  show ?case
    by (simp add: add_child_mappings action_log_group_mappings Cons.IH split: option.splits)
qed

lemma stages_loop_mappings:
  "stages_loop sts (self\<lparr>mappings := m\<rparr>) =
     (case stages_loop sts self of (r, self') \<Rightarrow> (r, self'\<lparr>mappings := m\<rparr>))"
proof (induction sts arbitrary: self)
  case Nil
  show ?case by simp
next
  case (Cons s sts)
  show ?case
    by (simp add: actions_loop_mappings Cons.IH split: option.splits prod.splits)
qed

lemma deploy_and_build_mappings:
  assumes "PipelineDeployStage_init ext2 = PipelineDeployStage_init ext1"
    and "build_pipeline ext2 = build_pipeline ext1"
  shows "declarations (deploy_and_build ext2 cp p t a (self\<lparr>mappings := m\<rparr>)) =
           declarations (deploy_and_build ext1 cp p t a self) \<and>
         raised (deploy_and_build ext2 cp p t a (self\<lparr>mappings := m\<rparr>)) =
           raised (deploy_and_build ext1 cp p t a self)"
  by (simp add: deploy_and_build_def assms Let_def add_child_mappings map_children_mappings
      stages_loop_mappings finish_pipeline_mappings
      split: option.splits sum.splits prod.splits)

lemma get_artifact_bucket_mappings:
  "get_artifact_bucket (self\<lparr>mappings := m\<rparr>) =
     (fst (get_artifact_bucket self), (snd (get_artifact_bucket self))\<lparr>mappings := m\<rparr>)"
  by (simp add: get_artifact_bucket_def Let_def add_child_mappings)

lemma code_build_opt_mappings: "code_build_opt (self\<lparr>mappings := m\<rparr>) = code_build_opt self"
  by (simp add: code_build_opt_def)

lemma get_codepipeline_source_add_child_mappings:
  "get_codepipeline_source ext ((add_child c self)\<lparr>mappings := m\<rparr>) =
     get_codepipeline_source ext (self\<lparr>mappings := m\<rparr>)"
  by (simp add: get_codepipeline_source_def add_child_def split: sum.splits)

lemma create_environment_pipeline_mappings:
  assumes src: "get_codepipeline_source ext2 (self\<lparr>mappings := m\<rparr>) =
      get_codepipeline_source ext1 self"
    and stage: "PipelineDeployStage_init ext2 = PipelineDeployStage_init ext1"
    and build: "build_pipeline ext2 = build_pipeline ext1"
  shows "declarations (create_environment_pipeline ext2 (self\<lparr>mappings := m\<rparr>) t a) =
           declarations (create_environment_pipeline ext1 self t a) \<and>
         raised (create_environment_pipeline ext2 (self\<lparr>mappings := m\<rparr>) t a) =
           raised (create_environment_pipeline ext1 self t a)"
proof (cases "get_codepipeline_source ext1 self")
  case (Inl e)
  with src show ?thesis
    by (simp add: create_environment_pipeline_def get_artifact_bucket_mappings
        add_child_mappings get_codepipeline_source_add_child_mappings
        get_codepipeline_source_children split_beta Let_def get_artifact_bucket_def)
next
  case (Inr source)
  with src show ?thesis
    by (simp add: create_environment_pipeline_def get_artifact_bucket_mappings
        add_child_mappings get_codepipeline_source_add_child_mappings
        get_codepipeline_source_children split_beta Let_def code_build_opt_mappings
        get_artifact_bucket_def deploy_and_build_mappings [OF stage build])
qed

text \<open>
  Claim C7. Two compositions with the same construct id, environment name, branch, target
  account and region, account and region of the stack, the same prefixes, the same library
  and deploy stage, and configurations that give the same repository name and repository
  owner (and may differ in everything else) have the same declarations, that is the same
  list of children, with the same count, names and policies, and end with the same
  exception if they end with one.
\<close>

theorem composition_deterministic:
  assumes "get_all_configurations ext1 = Inr m1"
    and "ext2 = ext1\<lparr>get_all_configurations := Inr m2\<rparr>"
    and "subscript m2 (DEPLOYMENT ext1) (GITHUB_REPOSITORY_NAME ext1) =
         subscript m1 (DEPLOYMENT ext1) (GITHUB_REPOSITORY_NAME ext1)"
    and "subscript m2 (DEPLOYMENT ext1) (GITHUB_REPOSITORY_OWNER_NAME ext1) =
         subscript m1 (DEPLOYMENT ext1) (GITHUB_REPOSITORY_OWNER_NAME ext1)"
  shows "declarations (PipelineStack_init ext2 cid t br a env) =
           declarations (PipelineStack_init ext1 cid t br a env) \<and>
         raised (PipelineStack_init ext2 cid t br a env) =
           raised (PipelineStack_init ext1 cid t br a env)"
proof (cases "get_logical_id_prefix ext1")
  case (Inl e)
  with assms(1,2) show ?thesis by (simp add: PipelineStack_init_def)
next
  case lp: (Inr lp)
  show ?thesis
  proof (cases "get_resource_name_prefix ext1")
    case (Inl e)
    with assms(1,2) lp show ?thesis by (simp add: PipelineStack_init_def)
  next
    case rp: (Inr rp)
    let ?self1 = "init_attributes ext1 cid t br env m1 lp rp"
    have self2: "init_attributes ext2 cid t br env m2 lp rp = ?self1\<lparr>mappings := m2\<rparr>"
      using assms(2) by (simp add: init_attributes_def Let_def)
    have init1: "PipelineStack_init ext1 cid t br a env =
        create_environment_pipeline ext1 ?self1 t a"
      using assms(1) lp rp by (simp add: PipelineStack_init_def)
    have init2: "PipelineStack_init ext2 cid t br a env =
        create_environment_pipeline ext2 (?self1\<lparr>mappings := m2\<rparr>) t a"
      using assms(2) lp rp self2 by (simp add: PipelineStack_init_def)
    have src: "get_codepipeline_source ext2 (?self1\<lparr>mappings := m2\<rparr>) =
        get_codepipeline_source ext1 ?self1"
      using assms(2-4) by (simp add: get_codepipeline_source_def split: sum.splits)
    have stage: "PipelineDeployStage_init ext2 = PipelineDeployStage_init ext1"
      and build: "build_pipeline ext2 = build_pipeline ext1"
      using assms(2) by simp_all
    from create_environment_pipeline_mappings [OF src stage build, of t a] init1 init2
    show ?thesis by simp
  qed
qed

theorem composition_deterministic_witness:
  "example_mappings_extended ''Dev'' \<noteq> example_mappings ''Dev'' \<and>
   declarations (PipelineStack_init example_externals_extended ''Prod-PipelineStackForTests''
       ''Prod'' ''main'' example_target_aws_env example_env) =
     declarations (example_composition ''Prod'') \<and>
   raised (PipelineStack_init example_externals_extended ''Prod-PipelineStackForTests''
       ''Prod'' ''main'' example_target_aws_env example_env) =
     raised (example_composition ''Prod'') \<and>
   length (declarations (example_composition ''Prod'')) = 6"
proof -
  have "get_all_configurations example_externals = Inr example_mappings"
    and "example_externals_extended =
      example_externals\<lparr>get_all_configurations := Inr example_mappings_extended\<rparr>"
    and "subscript example_mappings_extended (DEPLOYMENT example_externals)
           (GITHUB_REPOSITORY_NAME example_externals) =
         subscript example_mappings (DEPLOYMENT example_externals)
           (GITHUB_REPOSITORY_NAME example_externals)"
    and "subscript example_mappings_extended (DEPLOYMENT example_externals)
           (GITHUB_REPOSITORY_OWNER_NAME example_externals) =
         subscript example_mappings (DEPLOYMENT example_externals)
           (GITHUB_REPOSITORY_OWNER_NAME example_externals)"
    by (simp_all add: example_externals_def example_externals_extended_def subscript_def
        example_mappings_def example_mappings_extended_def)
  from composition_deterministic [OF this, of "''Prod-PipelineStackForTests''" "''Prod''"
      "''main''" example_target_aws_env example_env]
  have "declarations (PipelineStack_init example_externals_extended
          ''Prod-PipelineStackForTests'' ''Prod'' ''main'' example_target_aws_env example_env) =
        declarations (example_composition ''Prod'') \<and>
      raised (PipelineStack_init example_externals_extended ''Prod-PipelineStackForTests''
          ''Prod'' ''main'' example_target_aws_env example_env) =
        raised (example_composition ''Prod'')"
    by (simp add: example_composition_def)
  moreover have "example_mappings_extended ''Dev'' \<noteq> example_mappings ''Dev''"
    by (simp add: example_mappings_def example_mappings_extended_def)
  moreover have "length (declarations (example_composition ''Prod'')) = 6"
    by (simp add: example_composition_def PipelineStack_init_def example_externals_def
      init_attributes_def create_environment_pipeline_def get_artifact_bucket_def
      get_codepipeline_source_def subscript_def example_mappings_def deploy_and_build_def
      example_target_aws_env_def example_stages_def Let_def finish_pipeline_def
      add_child_def map_children_def)
  ultimately show ?thesis by simp
qed

subsection \<open>The synth step\<close>

text \<open>
  When the composition returns, the CDK pipeline of the stack mutates itself and its synth
  step runs the three commands of the source, the last of them \<^verbatim>\<open>cdk synth\<close>. The build
  project that self-mutation adds, with its deploy command, is made by the CDK library.
\<close>

lemma synth_step_commands:
  assumes "raised (PipelineStack_init ext cid t br a env) = None"
  shows "\<exists>p. the_codepipelines (declarations (PipelineStack_init ext cid t br a env)) = [p] \<and>
    self_mutation p \<and> commands (synth p) = synth_commands \<and>
    ''cdk synth'' \<in> set (commands (synth p))"
proof (cases rule: PipelineStack_init_cases [of ext cid t br a env])
  case (config e)
  with assms show ?thesis by simp
next
  case (composed m lp rp)
  let ?self = "init_attributes ext cid t br env m lp rp"
  from assms composed(4) obtain st where
    st: "create_environment_pipeline ext ?self t a = Returned st"
    by (auto dest: raised_None)
  from create_environment_pipeline_Returned [OF st] obtain b cp p s gs where
    shape: "children st = [BucketC b, PipelineC cp, CodePipelineC p, StageC s] @ map LogGroupC gs"
    and p: "commands (synth p) = synth_commands" "self_mutation p"
    by auto
  have "the_codepipelines (declarations (PipelineStack_init ext cid t br a env)) = [p]"
    using composed(4) st shape by (simp add: the_codepipelines_LogGroupC)
  with p show ?thesis by (simp add: synth_commands_def)
qed

end
